theory Spec2Isabelle
  imports Main
begin

section \<open>Data model of \<^verbatim>\<open>backend/main.py\<close>\<close>

text \<open>
  Python strings and byte strings are modelled as \<^typ>\<open>string\<close>. A character outside
  ASCII is written as the bytes of its UTF-8 encoding; no property below depends on the
  length of a string. Calls to \<^verbatim>\<open>print\<close> are left out.
\<close>

type_synonym bytes = string

text \<open>
  A Python exception other than \<^verbatim>\<open>HTTPException\<close>: its class name and the text that
  \<^verbatim>\<open>str(e)\<close> gives.
\<close>

datatype py_error = PyError (cls: string) (msg: string)

definition str_of :: "py_error \<Rightarrow> string" where
  "str_of e = msg e"

datatype http_exception = HTTPException (status_code: int) (detail: string)

record StoryRequest =
  theme :: string

record BookRequest =
  title :: string
  paragraphs :: "string list"

text \<open>
  Indexing a Python list with a non-negative index: out of range raises
  \<^verbatim>\<open>IndexError\<close>.
\<close>

definition py_index :: "'a list \<Rightarrow> nat \<Rightarrow> py_error + 'a" where
  "py_index xs i =
     (if i < length xs then Inr (xs ! i)
      else Inl (PyError ''IndexError'' ''list index out of range''))"

text \<open>\<^verbatim>\<open>not s\<close> for an optional string: true for \<^verbatim>\<open>None\<close> and for the empty string.\<close>

definition py_not :: "string option \<Rightarrow> bool" where
  "py_not s = (case s of None \<Rightarrow> True | Some v \<Rightarrow> v = [])"

subsection \<open>The external collaborators\<close>

text \<open>
  The two OpenAI endpoints, \<^verbatim>\<open>base64.b64decode\<close> and the ReportLab classes that parse what
  the caller supplies are not part of the program; they are parameters of the model. A
  response of the image endpoint is the list \<^verbatim>\<open>response.data\<close>, each entry its \<^verbatim>\<open>b64_json\<close>
  field (which may be \<^verbatim>\<open>None\<close>); a response of the chat endpoint is the list
  \<^verbatim>\<open>response.choices\<close>, each entry its \<^verbatim>\<open>message.content\<close>. The image endpoint answers per
  request: its first argument is the position of the request among the requests of one
  book, so that two requests with the same prompt may be answered differently.
  \<^verbatim>\<open>ImageReader\<close> stands for reading image bytes and drawing the image
  (\<^verbatim>\<open>ImageReader(BytesIO(...))\<close> followed by \<^verbatim>\<open>drawImage\<close>), \<^verbatim>\<open>Paragraph\<close> for building,
  wrapping and drawing a paragraph (\<^verbatim>\<open>Paragraph(...)\<close>, \<^verbatim>\<open>wrapOn\<close>, \<^verbatim>\<open>drawOn\<close>); each gives the
  exception it raises, or \<^verbatim>\<open>None\<close> when it raises none. \<^verbatim>\<open>api_key\<close> is the module variable
  of that name, set when the module is imported.
\<close>

record env =
  api_key :: "string option"
  images_generate :: "nat \<Rightarrow> string \<Rightarrow> py_error + string option list"
  chat_completions_create :: "string \<Rightarrow> string \<Rightarrow> py_error + string option list"
  b64decode :: "string \<Rightarrow> py_error + bytes"
  ImageReader :: "bytes \<Rightarrow> py_error option"
  Paragraph :: "string \<Rightarrow> py_error option"

subsection \<open>Client setup\<close>

text \<open>
  Lines 19 to 22 run when the module is imported: the key is read from the environment,
  a warning is printed when there is none, and the client is constructed with it. The
  constructor of the client, given no key, looks the same environment variable up itself
  and raises \<^verbatim>\<open>OpenAIError\<close> when that is unset too. \<open>startup\<close> takes the value of the
  environment variable and gives the module variable \<^verbatim>\<open>api_key\<close>, or the exception with which
  the import ends; after such an import there is no application to serve a request.
\<close>

definition AsyncOpenAI :: "string option \<Rightarrow> string option \<Rightarrow> py_error + string" where
  "AsyncOpenAI key environ =
     (case key of
        Some k \<Rightarrow> Inr k
      | None \<Rightarrow>
          (case environ of
             Some k \<Rightarrow> Inr k
           | None \<Rightarrow>
               Inl (PyError ''OpenAIError''
                 (''The api_key client option must be set either by passing api_key to the '' @
                  ''client or by setting the OPENAI_API_KEY environment variable''))))"

definition startup :: "string option \<Rightarrow> py_error + string option" where
  "startup environ =
     (let key = environ
      in case AsyncOpenAI key environ of
           Inl err \<Rightarrow> Inl err
         | Inr client \<Rightarrow> Inr key)"

text \<open>The requests that leave the process, in the order in which they are issued.\<close>

datatype ext_call =
    ImageCall string string string
  | ChatCall string string string

subsection \<open>Prompts\<close>

definition ART_STYLE_PROMPT :: string where
  \<open>ART_STYLE_PROMPT =
   ''\<newline>'' @
   ''**Art Style:** A high-quality digital painting in the style of a classic children's book with a gentle, pictorial, and artisanal watercolor finish. The lighting must be warm and soft, creating a cozy and nostalgic atmosphere. All images must be in a 4:3 landscape aspect ratio.\<newline>'' @
   ''\<newline>'' @
   ''**Character Descriptions (Mandatory):**\<newline>'' @
   ''*   **Pepito:** A 3-year-old boy, small in stature, with messy dark brown hair, big brown eyes, and rosy cheeks. He is always wearing the exact same outfit: a sweater with horizontal red and orange stripes, and blue shorts. He has fair skin.\<newline>'' @
   ''*   **Pep'' @
   [CHR 0xC3, CHR 0xB3] @
   ''n:** A 5-year-old boy, taller and sturdier than his brother, with neat dark brown hair. He is always wearing the exact same outfit: a blue and yellow polo shirt (remera tipo chomba) and dark long pants. He has the same fair skin as his brother.\<newline>'' @
   ''\<newline>'' @
   ''**Consistency Rule:** Pepito and Pep'' @
   [CHR 0xC3, CHR 0xB3] @
   ''n must look identical in every single image, with the exact same face, hair, and clothing as described.\<newline>''\<close>

definition system_prompt :: string where
  \<open>system_prompt =
   ''\<newline>'' @
   ''    You are a creative storyteller for children. Your task is to write a short, magical story in Spanish.\<newline>'' @
   ''\<newline>'' @
   ''    **Rules:**\<newline>'' @
   ''    1. The story must be exactly 5 paragraphs long.\<newline>'' @
   ''    2. The language must be Argentinian Spanish. Use local vocabulary and phrasing naturally (e.g., "vos" instead of "t'' @
   [CHR 0xC3, CHR 0xBA] @
   ''", words like "pileta", "vereda", "barrilete" when appropriate).\<newline>'' @
   ''    3. The main characters are two brothers, Pepito (3 years old) and Pep'' @
   [CHR 0xC3, CHR 0xB3] @
   ''n (5 years old). The story must be about them.\<newline>'' @
   ''    4. **Crucial Safety Rule:** The story can have a small, easily resolved problem or moment of tension, but it is absolutely forbidden for any character to get hurt, be in real danger, or experience significant fear. The tone must always be warm, safe, and reassuring.\<newline>'' @
   ''    5. The story must have a clear title.\<newline>'' @
   ''    6. Your output must be a JSON object with two keys: "title" (a string) and "paragraphs" (an array of 5 strings). Do not add any extra text or explanations outside of the JSON object.\<newline>'' @
   ''    ''\<close>

definition cover_prompt :: string where
  \<open>cover_prompt =
   ''A beautiful and attractive cover scene with the two protagonists, Pepito and Pep'' @
   [CHR 0xC3, CHR 0xB3] @
   ''n, in a pleasant and safe natural landscape like a sunny meadow or a gentle forest. No text.''\<close>

section \<open>Helper functions\<close>

text \<open>
  \<^verbatim>\<open>generate_image_data\<close>: the prompt sent is the art style prompt, two newlines, the
  scene marker and the scene prompt. Every exception of the \<^verbatim>\<open>try\<close> block (the call, the
  read of \<^verbatim>\<open>response.data[0]\<close>, the decoding) is replaced by one \<^verbatim>\<open>HTTPException\<close>. The
  result is the request issued together with the outcome once the request has completed.
\<close>

definition full_prompt :: "string \<Rightarrow> string" where
  "full_prompt prompt = ART_STYLE_PROMPT @ ''\<newline>\<newline>**Scene:** '' @ prompt"

definition image_response :: "env \<Rightarrow> nat \<Rightarrow> string \<Rightarrow> py_error + bytes" where
  "image_response e k fp =
     (case images_generate e k fp of
        Inl err \<Rightarrow> Inl err
      | Inr data \<Rightarrow>
          (case py_index data 0 of
             Inl err \<Rightarrow> Inl err
           | Inr None \<Rightarrow>
               Inl (PyError ''TypeError''
                 (''argument should be a bytes-like object or ASCII string, not '' @
                    [CHR 0x27] @ ''NoneType'' @ [CHR 0x27]))
           | Inr (Some b64_data) \<Rightarrow> b64decode e b64_data))"

definition generate_image_data :: "env \<Rightarrow> nat \<Rightarrow> string \<Rightarrow> ext_call \<times> (http_exception + bytes)" where
  "generate_image_data e k prompt =
     (ImageCall ''dall-e-3'' (full_prompt prompt) ''1024x768'',
      case image_response e k (full_prompt prompt) of
        Inl err \<Rightarrow> Inl (HTTPException 500 (''Failed to generate image for prompt: '' @ prompt))
      | Inr decoded \<Rightarrow> Inr decoded)"

subsection \<open>The PDF canvas\<close>

text \<open>
  The ReportLab canvas is modelled by what the program asks of it: each drawing call appends
  an operation to the page being drawn, \<^verbatim>\<open>showPage\<close> closes that page, and \<^verbatim>\<open>save\<close> writes
  the closed pages (after closing a page that has operations left) to the buffer. An
  operation records the data the program passes (image bytes, title, paragraph text, font);
  the page geometry and the colours are the same constants in every call and are not
  recorded. \<^verbatim>\<open>DrawParagraph\<close> stands for the three calls that build, wrap and draw a
  \<^verbatim>\<open>Paragraph\<close>; \<^verbatim>\<open>DrawImage\<close> for \<^verbatim>\<open>ImageReader\<close> followed by \<^verbatim>\<open>drawImage\<close>. Both parse
  data of the caller and may raise, as the collaborators \<^verbatim>\<open>Paragraph\<close> and \<^verbatim>\<open>ImageReader\<close>
  say; the exception leaves \<^verbatim>\<open>create_pdf_book\<close>, which has no handler. The document
  returned is the list of pages written.
\<close>

datatype draw_op =
    DrawImage bytes
  | SetFont string nat
  | SetFillColorRGB
  | DrawCentredString string
  | SetFillColor
  | Rect
  | DrawParagraph string

type_synonym page = "draw_op list"

record canvas =
  shown :: "page list"
  current :: page

definition Canvas :: canvas where
  "Canvas = \<lparr>shown = [], current = []\<rparr>"

definition draw :: "canvas \<Rightarrow> draw_op \<Rightarrow> canvas" where
  "draw c x = c\<lparr>current := current c @ [x]\<rparr>"

definition showPage :: "canvas \<Rightarrow> canvas" where
  "showPage c = c\<lparr>shown := shown c @ [current c], current := []\<rparr>"

definition save :: "canvas \<Rightarrow> page list" where
  "save c = shown (if current c = [] then c else showPage c)"

text \<open>
  The loop \<^verbatim>\<open>for i, paragraph_text in enumerate(paragraphs)\<close> of \<^verbatim>\<open>create_pdf_book\<close>: the
  paragraph is parsed and its text page drawn and closed before \<^verbatim>\<open>image_data[i + 1]\<close> is
  read; that read raises \<^verbatim>\<open>IndexError\<close> when the list is too short, and the image read is
  then parsed and drawn on a page of its own.
\<close>

fun paragraph_pages ::
  "env \<Rightarrow> nat \<Rightarrow> string list \<Rightarrow> bytes list \<Rightarrow> canvas \<Rightarrow> py_error + canvas" where
  "paragraph_pages e i [] image_data c = Inr c"
| "paragraph_pages e i (paragraph_text # rest) image_data c =
     (case Paragraph e paragraph_text of
        Some err \<Rightarrow> Inl err
      | None \<Rightarrow>
          (let c1 = showPage (draw (draw (draw c SetFillColor) Rect) (DrawParagraph paragraph_text))
           in case py_index image_data (i + 1) of
                Inl err \<Rightarrow> Inl err
              | Inr scene_image \<Rightarrow>
                  (case ImageReader e scene_image of
                     Some err \<Rightarrow> Inl err
                   | None \<Rightarrow>
                       paragraph_pages e (i + 1) rest image_data
                         (showPage (draw c1 (DrawImage scene_image))))))"

definition create_pdf_book ::
  "env \<Rightarrow> string \<Rightarrow> string list \<Rightarrow> bytes list \<Rightarrow> py_error + page list" where
  "create_pdf_book e t ps image_data =
     (case py_index image_data 0 of
        Inl err \<Rightarrow> Inl err
      | Inr cover_image \<Rightarrow>
          (case ImageReader e cover_image of
             Some err \<Rightarrow> Inl err
           | None \<Rightarrow>
               (let c = showPage
                          (draw (draw (draw (draw Canvas (DrawImage cover_image))
                             (SetFont ''Helvetica-Bold'' 36)) SetFillColorRGB) (DrawCentredString t))
                in case paragraph_pages e 0 ps image_data c of
                     Inl err \<Rightarrow> Inl err
                   | Inr c' \<Rightarrow> Inr (save c'))))"

text \<open>
  The page sequence as the specification words it: a cover page from \<open>images[0]\<close> and the
  title, then for each paragraph \<open>i\<close> a text page of \<open>paragraphs[i]\<close> followed by an
  illustration page of \<open>images[i+1]\<close>.
\<close>

definition cover_page :: "bytes \<Rightarrow> string \<Rightarrow> page" where
  "cover_page img t = [DrawImage img, SetFont ''Helvetica-Bold'' 36, SetFillColorRGB, DrawCentredString t]"

definition text_page :: "string \<Rightarrow> page" where
  "text_page p = [SetFillColor, Rect, DrawParagraph p]"

definition illustration_page :: "bytes \<Rightarrow> page" where
  "illustration_page img = [DrawImage img]"

definition body_pages :: "nat \<Rightarrow> string list \<Rightarrow> bytes list \<Rightarrow> page list" where
  "body_pages k ps images =
     concat (map (\<lambda>i. [text_page (ps ! i), illustration_page (images ! (k + i + 1))]) [0..<length ps])"

definition render_book :: "string \<Rightarrow> string list \<Rightarrow> bytes list \<Rightarrow> page list" where
  "render_book t ps images = cover_page (images ! 0) t # body_pages 0 ps images"

subsection \<open>Awaiting the image tasks\<close>

text \<open>
  \<^verbatim>\<open>asyncio.gather\<close> over tasks whose outcomes are known: the tasks complete in some order,
  the first exception met in that order is raised to the awaiting coroutine, and when every
  task has completed without one the results are read in the order of the tasks. The
  completion order is a parameter: the tasks a schedule lists complete in the listed
  order, the tasks it does not list complete after them, so that every list of numbers
  is a schedule in which each task completes, and every permutation of the task indices is
  its own completion order.
\<close>

definition completion_order :: "nat \<Rightarrow> nat list \<Rightarrow> nat list" where
  "completion_order n sched =
     filter (\<lambda>i. i < n) sched @ filter (\<lambda>i. i \<notin> set sched) [0..<n]"

fun first_exception :: "nat list \<Rightarrow> ('e + 'a) list \<Rightarrow> 'e option" where
  "first_exception [] outcomes = None"
| "first_exception (i # order) outcomes =
     (if i < length outcomes
      then (case outcomes ! i of
              Inl err \<Rightarrow> Some err
            | Inr v \<Rightarrow> first_exception order outcomes)
      else first_exception order outcomes)"

fun results :: "('e + 'a) list \<Rightarrow> 'e + 'a list" where
  "results [] = Inr []"
| "results (Inl err # rest) = Inl err"
| "results (Inr v # rest) =
     (case results rest of Inl err \<Rightarrow> Inl err | Inr vs \<Rightarrow> Inr (v # vs))"

definition gather :: "nat list \<Rightarrow> ('e + 'a) list \<Rightarrow> 'e + 'a list" where
  "gather sched outcomes =
     (case first_exception (completion_order (length outcomes) sched) outcomes of
        Some err \<Rightarrow> Inl err
      | None \<Rightarrow> results outcomes)"

section \<open>API endpoints\<close>

text \<open>
  An endpoint returns the external requests it issued and its outcome: the value returned
  or the \<^verbatim>\<open>HTTPException\<close> raised.
\<close>

definition generate_story :: "env \<Rightarrow> StoryRequest \<Rightarrow> ext_call list \<times> (http_exception + string option)" where
  "generate_story e request =
     (if py_not (api_key e)
      then ([], Inl (HTTPException 500 ''OPENAI_API_KEY is not configured on the server.''))
      else
        (let user_prompt = ''The theme of the story is: '' @ theme request
         in ([ChatCall ''gpt-4o'' system_prompt user_prompt],
             case chat_completions_create e system_prompt user_prompt of
               Inl err \<Rightarrow>
                 Inl (HTTPException 500 (''Failed to generate story. Error: '' @ str_of err))
             | Inr choices \<Rightarrow>
                 (case py_index choices 0 of
                    Inl err \<Rightarrow>
                      Inl (HTTPException 500 (''Failed to generate story. Error: '' @ str_of err))
                  | Inr content \<Rightarrow> Inr content))))"

datatype streaming_response =
  StreamingResponse (body: "page list") (media_type: string) (headers: "(string \<times> string) list")

text \<open>
  Lines 168 to 174 of \<^verbatim>\<open>generate_book\<close>: the scene prompts, one task per prompt, and the
  list that \<^verbatim>\<open>asyncio.gather\<close> gives. The \<open>k\<close>-th task is the \<open>k\<close>-th image request of the book.
\<close>

definition scene_prompts :: "string list \<Rightarrow> string list" where
  "scene_prompts ps = [cover_prompt] @ ps"

definition image_tasks :: "env \<Rightarrow> string list \<Rightarrow> (ext_call \<times> (http_exception + bytes)) list" where
  "image_tasks e ps = map (\<lambda>(k, prompt). generate_image_data e k prompt) (enumerate 0 (scene_prompts ps))"

definition image_data_list :: "env \<Rightarrow> string list \<Rightarrow> nat list \<Rightarrow> http_exception + bytes list" where
  "image_data_list e ps sched = gather sched (map snd (image_tasks e ps))"

definition generate_book ::
  "env \<Rightarrow> BookRequest \<Rightarrow> nat list \<Rightarrow> ext_call list \<times> (http_exception + streaming_response)" where
  "generate_book e request sched =
     (if py_not (api_key e)
      then ([], Inl (HTTPException 500 ''OPENAI_API_KEY is not configured on the server.''))
      else
        (map fst (image_tasks e (paragraphs request)),
         case image_data_list e (paragraphs request) sched of
           Inl err \<Rightarrow> Inl err
         | Inr images \<Rightarrow>
             (case create_pdf_book e (title request) (paragraphs request) images of
                Inl err \<Rightarrow>
                  Inl (HTTPException 500 (''Failed to generate the book. Error: '' @ str_of err))
              | Inr pdf_buffer \<Rightarrow>
                  Inr (StreamingResponse pdf_buffer ''application/pdf''
                        [(''Content-Disposition'', ''attachment; filename=libro_de_cuentos.pdf'')]))))"

section \<open>Concrete collaborators\<close>

text \<open>
  Collaborators for the concrete runs below. \<open>b64_table\<close> agrees with Base64 on the three
  strings the runs decode and rejects every other string. \<open>png_red\<close>, \<open>png_green\<close> and
  \<open>png_blue\<close> are PNG files of one pixel; \<open>image_table\<close> reads these three and rejects every
  other byte string, among them the strings that are no image at all. \<open>plain_paragraph\<close>
  draws the texts without a markup character and rejects every other text, among them
  the texts whose markup is broken. \<open>env_ok\<close> answers every request: the image endpoint
  with one image per request, the chat endpoint with a JSON object of three paragraphs.
  \<open>env_failing k\<close> differs in that its \<open>k\<close>-th image request of a book raises.
\<close>

definition b64_table :: "string \<Rightarrow> py_error + bytes" where
  "b64_table s =
     (if s = ''Yw=='' then Inr ''c''
      else if s = ''YQ=='' then Inr ''a''
      else if s = ''Yg=='' then Inr ''b''
      else Inl (PyError ''binascii.Error'' ''Incorrect padding''))"

definition png_red :: bytes where
  "png_red =
     [CHR 0x89, CHR 0x50, CHR 0x4E, CHR 0x47, CHR 0x0D, CHR 0x0A, CHR 0x1A, CHR 0x0A, CHR 0x00, CHR 0x00,
      CHR 0x00, CHR 0x0D, CHR 0x49, CHR 0x48, CHR 0x44, CHR 0x52, CHR 0x00, CHR 0x00, CHR 0x00, CHR 0x01,
      CHR 0x00, CHR 0x00, CHR 0x00, CHR 0x01, CHR 0x08, CHR 0x02, CHR 0x00, CHR 0x00, CHR 0x00, CHR 0x90,
      CHR 0x77, CHR 0x53, CHR 0xDE, CHR 0x00, CHR 0x00, CHR 0x00, CHR 0x0C, CHR 0x49, CHR 0x44, CHR 0x41,
      CHR 0x54, CHR 0x78, CHR 0xDA, CHR 0x63, CHR 0xF8, CHR 0xCF, CHR 0xC0, CHR 0x00, CHR 0x00, CHR 0x03,
      CHR 0x01, CHR 0x01, CHR 0x00, CHR 0xF7, CHR 0x03, CHR 0x41, CHR 0x43, CHR 0x00, CHR 0x00, CHR 0x00,
      CHR 0x00, CHR 0x49, CHR 0x45, CHR 0x4E, CHR 0x44, CHR 0xAE, CHR 0x42, CHR 0x60, CHR 0x82]"

definition png_green :: bytes where
  "png_green =
     [CHR 0x89, CHR 0x50, CHR 0x4E, CHR 0x47, CHR 0x0D, CHR 0x0A, CHR 0x1A, CHR 0x0A, CHR 0x00, CHR 0x00,
      CHR 0x00, CHR 0x0D, CHR 0x49, CHR 0x48, CHR 0x44, CHR 0x52, CHR 0x00, CHR 0x00, CHR 0x00, CHR 0x01,
      CHR 0x00, CHR 0x00, CHR 0x00, CHR 0x01, CHR 0x08, CHR 0x02, CHR 0x00, CHR 0x00, CHR 0x00, CHR 0x90,
      CHR 0x77, CHR 0x53, CHR 0xDE, CHR 0x00, CHR 0x00, CHR 0x00, CHR 0x0C, CHR 0x49, CHR 0x44, CHR 0x41,
      CHR 0x54, CHR 0x78, CHR 0xDA, CHR 0x63, CHR 0x60, CHR 0xF8, CHR 0xCF, CHR 0x00, CHR 0x00, CHR 0x02,
      CHR 0x02, CHR 0x01, CHR 0x00, CHR 0x45, CHR 0xF4, CHR 0x52, CHR 0xD4, CHR 0x00, CHR 0x00, CHR 0x00,
      CHR 0x00, CHR 0x49, CHR 0x45, CHR 0x4E, CHR 0x44, CHR 0xAE, CHR 0x42, CHR 0x60, CHR 0x82]"

definition png_blue :: bytes where
  "png_blue =
     [CHR 0x89, CHR 0x50, CHR 0x4E, CHR 0x47, CHR 0x0D, CHR 0x0A, CHR 0x1A, CHR 0x0A, CHR 0x00, CHR 0x00,
      CHR 0x00, CHR 0x0D, CHR 0x49, CHR 0x48, CHR 0x44, CHR 0x52, CHR 0x00, CHR 0x00, CHR 0x00, CHR 0x01,
      CHR 0x00, CHR 0x00, CHR 0x00, CHR 0x01, CHR 0x08, CHR 0x02, CHR 0x00, CHR 0x00, CHR 0x00, CHR 0x90,
      CHR 0x77, CHR 0x53, CHR 0xDE, CHR 0x00, CHR 0x00, CHR 0x00, CHR 0x0C, CHR 0x49, CHR 0x44, CHR 0x41,
      CHR 0x54, CHR 0x78, CHR 0xDA, CHR 0x63, CHR 0x60, CHR 0x60, CHR 0xF8, CHR 0x0F, CHR 0x00, CHR 0x01,
      CHR 0x03, CHR 0x01, CHR 0x00, CHR 0x36, CHR 0x74, CHR 0x11, CHR 0x40, CHR 0x00, CHR 0x00, CHR 0x00,
      CHR 0x00, CHR 0x49, CHR 0x45, CHR 0x4E, CHR 0x44, CHR 0xAE, CHR 0x42, CHR 0x60, CHR 0x82]"

definition image_table :: "bytes \<Rightarrow> py_error option" where
  "image_table b =
     (if b \<in> set [png_red, png_green, png_blue] then None
      else Some (PyError ''UnidentifiedImageError'' ''cannot identify image file''))"

definition plain_paragraph :: "string \<Rightarrow> py_error option" where
  "plain_paragraph text =
     (if CHR ''<'' \<in> set text \<or> CHR ''&'' \<in> set text
      then Some (PyError ''ValueError'' ''paragraph text has invalid markup'')
      else None)"

definition story_json :: string where
  \<open>story_json = ''{"title": "El barrilete", "paragraphs": ["Uno.", "Dos.", "Tres."]}''\<close>

definition env_ok :: env where
  "env_ok =
     \<lparr>api_key = Some ''sk-test'',
      images_generate =
        (\<lambda>k fp. Inr [Some (if k = 0 then ''Yw=='' else if k = 1 then ''YQ=='' else ''Yg=='')]),
      chat_completions_create = (\<lambda>sp up. Inr [Some story_json]),
      b64decode = b64_table,
      ImageReader = image_table,
      Paragraph = plain_paragraph\<rparr>"

definition env_failing :: "nat \<Rightarrow> env" where
  "env_failing k =
     env_ok\<lparr>images_generate :=
       (\<lambda>i fp. if i = k then Inl (PyError ''RateLimitError'' ''Rate limit reached'')
                else Inr [Some ''Yw==''])\<rparr>"

section \<open>The layout engine\<close>

lemma body_pages_Nil: "body_pages k [] imgs = []"
  by (simp add: body_pages_def)

lemma body_pages_Cons:
  "body_pages k (p # rest) imgs =
     text_page p # illustration_page (imgs ! (k + 1)) # body_pages (k + 1) rest imgs"
proof -
  have "[0..<length (p # rest)] = 0 # map Suc [0..<length rest]"
    by (simp add: upt_conv_Cons map_Suc_upt del: upt_Suc)
  then show ?thesis
    by (simp add: body_pages_def comp_def del: upt_Suc)
qed


lemma paragraph_pages_ok:
  "current c = [] \<Longrightarrow> k + length ps < length imgs \<Longrightarrow>
   \<forall>p\<in>set ps. Paragraph e p = None \<Longrightarrow>
   \<forall>i<length ps. ImageReader e (imgs ! (k + i + 1)) = None \<Longrightarrow>
   paragraph_pages e k ps imgs c = Inr (c\<lparr>shown := shown c @ body_pages k ps imgs\<rparr>)"
proof (induction ps arbitrary: k c)
  case Nil
  then show ?case by (simp add: body_pages_Nil)
next
  case (Cons p rest)
  let ?c2 = "showPage (draw (showPage (draw (draw (draw c SetFillColor) Rect) (DrawParagraph p)))
               (DrawImage (imgs ! (k + 1))))"
  have cur: "current ?c2 = []" by (simp add: showPage_def)
  have par: "Paragraph e p = None" using Cons.prems(3) by simp
  have img: "ImageReader e (imgs ! (k + 1)) = None" using Cons.prems(4) by auto
  have step: "paragraph_pages e k (p # rest) imgs c = paragraph_pages e (k + 1) rest imgs ?c2"
    using Cons.prems(2) par img by (simp add: py_index_def Let_def)
  have imgs': "\<forall>i<length rest. ImageReader e (imgs ! (k + 1 + i + 1)) = None"
  proof (intro allI impI)
    fix i assume "i < length rest"
    then have "Suc i < length (p # rest)" by simp
    from Cons.prems(4) [rule_format, OF this] show "ImageReader e (imgs ! (k + 1 + i + 1)) = None"
      by simp
  qed
  have "paragraph_pages e (k + 1) rest imgs ?c2 =
          Inr (?c2\<lparr>shown := shown ?c2 @ body_pages (k + 1) rest imgs\<rparr>)"
    using Cons.prems(2,3) by (intro Cons.IH cur imgs') simp_all
  also have "?c2\<lparr>shown := shown ?c2 @ body_pages (k + 1) rest imgs\<rparr> =
          c\<lparr>shown := shown c @ body_pages k (p # rest) imgs\<rparr>"
    using Cons.prems(1)
    by (simp add: showPage_def draw_def text_page_def illustration_page_def body_pages_Cons)
  finally show ?case
    by (simp only: step)
qed

lemma create_pdf_book_ok:
  assumes len: "length ps < length imgs"
    and imgs: "\<forall>i\<le>length ps. ImageReader e (imgs ! i) = None"
    and pars: "\<forall>p\<in>set ps. Paragraph e p = None"
  shows "create_pdf_book e t ps imgs = Inr (render_book t ps imgs)"
proof -
  let ?c = "showPage (draw (draw (draw (draw Canvas (DrawImage (imgs ! 0)))
              (SetFont ''Helvetica-Bold'' 36)) SetFillColorRGB) (DrawCentredString t))"
  have c: "?c = \<lparr>shown = [cover_page (imgs ! 0) t], current = []\<rparr>"
    by (simp add: showPage_def draw_def Canvas_def cover_page_def)
  have cover: "ImageReader e (imgs ! 0) = None" using imgs by simp
  have "paragraph_pages e 0 ps imgs ?c = Inr (?c\<lparr>shown := shown ?c @ body_pages 0 ps imgs\<rparr>)"
    using len imgs pars by (intro paragraph_pages_ok) (simp_all add: showPage_def)
  moreover have "imgs \<noteq> []" using len by auto
  ultimately show ?thesis
    using cover by (simp add: create_pdf_book_def py_index_def Let_def c save_def render_book_def)
qed

lemma paragraph_pages_Inr:
  "paragraph_pages e k ps imgs c = Inr c' \<Longrightarrow>
   (\<forall>p\<in>set ps. Paragraph e p = None) \<and>
   (\<forall>i<length ps. k + i + 1 < length imgs \<and> ImageReader e (imgs ! (k + i + 1)) = None)"
proof (induction ps arbitrary: k c)
  case Nil
  then show ?case by simp
next
  case (Cons p rest)
  from Cons.prems have par: "Paragraph e p = None"
    by (simp split: option.splits)
  from Cons.prems par have len: "k + 1 < length imgs"
    by (simp add: py_index_def Let_def split: if_splits)
  from Cons.prems par len have img: "ImageReader e (imgs ! (k + 1)) = None"
    by (simp add: py_index_def Let_def split: option.splits)
  from Cons.prems par len img obtain c2 where "paragraph_pages e (k + 1) rest imgs c2 = Inr c'"
    by (simp add: py_index_def Let_def)
  from Cons.IH [OF this]
  have ih: "(\<forall>p\<in>set rest. Paragraph e p = None) \<and>
     (\<forall>i<length rest. k + 1 + i + 1 < length imgs \<and> ImageReader e (imgs ! (k + 1 + i + 1)) = None)" .
  have "k + i + 1 < length imgs \<and> ImageReader e (imgs ! (k + i + 1)) = None"
    if "i < length (p # rest)" for i
  proof (cases i)
    case 0
    then show ?thesis using len img by simp
  next
    case (Suc j)
    then have "j < length rest" using that by simp
    with ih show ?thesis using Suc by simp
  qed
  then show ?case using par ih by simp
qed

lemma create_pdf_book_Inr:
  assumes "create_pdf_book e t ps imgs = Inr doc"
  shows "length ps < length imgs \<and> (\<forall>i\<le>length ps. ImageReader e (imgs ! i) = None) \<and>
         (\<forall>p\<in>set ps. Paragraph e p = None)"
proof -
  from assms have ne: "0 < length imgs"
    by (simp add: create_pdf_book_def py_index_def split: if_splits)
  from assms ne have cover: "ImageReader e (imgs ! 0) = None"
    by (simp add: create_pdf_book_def py_index_def split: option.splits)
  from assms ne cover obtain c c' where pp: "paragraph_pages e 0 ps imgs c = Inr c'"
    by (simp add: create_pdf_book_def py_index_def Let_def split: sum.splits)
  from paragraph_pages_Inr [OF pp]
  have body: "(\<forall>p\<in>set ps. Paragraph e p = None) \<and>
     (\<forall>i<length ps. 0 + i + 1 < length imgs \<and> ImageReader e (imgs ! (0 + i + 1)) = None)" .
  have len: "length ps < length imgs"
  proof (cases ps)
    case Nil
    then show ?thesis using ne by simp
  next
    case (Cons p rest)
    then have "length rest < length ps" by simp
    with body have "0 + length rest + 1 < length imgs" by blast
    then show ?thesis using Cons by simp
  qed
  have "ImageReader e (imgs ! i) = None" if "i \<le> length ps" for i
  proof (cases i)
    case 0
    then show ?thesis using cover by simp
  next
    case (Suc j)
    then have "j < length ps" using that by simp
    with body show ?thesis using Suc by simp
  qed
  then show ?thesis using len body by simp
qed

lemma paragraph_pages_short:
  "length imgs \<le> k + length ps \<Longrightarrow> k < length imgs \<Longrightarrow>
   \<forall>p\<in>set ps. Paragraph e p = None \<Longrightarrow> \<forall>img\<in>set imgs. ImageReader e img = None \<Longrightarrow>
   paragraph_pages e k ps imgs c = Inl (PyError ''IndexError'' ''list index out of range'')"
proof (induction ps arbitrary: k c)
  case Nil
  then show ?case by simp
next
  case (Cons p rest)
  have par: "Paragraph e p = None" using Cons.prems(3) by simp
  show ?case
  proof (cases "k + 1 < length imgs")
    case True
    then have "ImageReader e (imgs ! (k + 1)) = None" using Cons.prems(4) by simp
    then show ?thesis using True par Cons.prems Cons.IH [of "k + 1"]
      by (simp add: py_index_def Let_def)
  next
    case False
    then show ?thesis using par by (simp add: py_index_def Let_def)
  qed
qed

lemma create_pdf_book_short:
  assumes "length imgs \<le> length ps"
    and "\<forall>img\<in>set imgs. ImageReader e img = None" and "\<forall>p\<in>set ps. Paragraph e p = None"
  shows "create_pdf_book e t ps imgs = Inl (PyError ''IndexError'' ''list index out of range'')"
proof (cases "imgs = []")
  case True
  then show ?thesis by (simp add: create_pdf_book_def py_index_def)
next
  case False
  then have cover: "ImageReader e (imgs ! 0) = None" using assms(2) by simp
  have "paragraph_pages e 0 ps imgs c = Inl (PyError ''IndexError'' ''list index out of range'')" for c
    using False assms by (intro paragraph_pages_short) simp_all
  then show ?thesis
    using False cover by (simp add: create_pdf_book_def py_index_def Let_def)
qed

lemma paragraph_pages_cong:
  "\<forall>i<length ps. py_index a (k + i + 1) = py_index b (k + i + 1) \<Longrightarrow>
   paragraph_pages e k ps a c = paragraph_pages e k ps b c"
proof (induction ps arbitrary: k c)
  case Nil
  then show ?case by simp
next
  case (Cons p rest)
  have first: "py_index a (k + 1) = py_index b (k + 1)"
    using Cons.prems [rule_format, of 0] by simp
  have later: "\<forall>i<length rest. py_index a (k + 1 + i + 1) = py_index b (k + 1 + i + 1)"
  proof (intro allI impI)
    fix i assume "i < length rest"
    then have "Suc i < length (p # rest)" by simp
    from Cons.prems [rule_format, OF this]
    show "py_index a (k + 1 + i + 1) = py_index b (k + 1 + i + 1)" by simp
  qed
  show ?case
    using first Cons.IH [OF later]
    by (simp add: Let_def split: option.splits sum.splits)
qed

lemma create_pdf_book_cong:
  assumes "\<forall>i\<le>length ps. py_index a i = py_index b i"
  shows "create_pdf_book e t ps a = create_pdf_book e t ps b"
proof -
  have "py_index a 0 = py_index b 0" using assms by simp
  moreover have "paragraph_pages e 0 ps a c = paragraph_pages e 0 ps b c" for c
    by (rule paragraph_pages_cong) (use assms in simp)
  ultimately show ?thesis
    by (simp add: create_pdf_book_def Let_def split: sum.splits option.splits)
qed

lemma create_pdf_book_take:
  assumes "length ps + 1 \<le> length a" "length ps + 1 \<le> length b"
    and "take (length ps + 1) a = take (length ps + 1) b"
  shows "create_pdf_book e t ps a = create_pdf_book e t ps b"
proof (rule create_pdf_book_cong, intro allI impI)
  fix i assume i: "i \<le> length ps"
  have "take (length ps + 1) a ! i = take (length ps + 1) b ! i" using assms(3) by simp
  then have "a ! i = b ! i" using i by simp
  then show "py_index a i = py_index b i" using i assms(1,2) by (simp add: py_index_def)
qed




text \<open>
  C5, as amended. \<^verbatim>\<open>create_pdf_book\<close> does not compare the two lengths. When the image
  sequence is shorter than the paragraph sequence plus one, the call raises and returns no
  document, and what it raises is \<^verbatim>\<open>IndexError\<close>, from reading the missing image, when the
  library accepts the images and paragraphs; when the image sequence is longer and the
  library accepts the paragraphs and the first \<open>N + 1\<close> images, the call returns the
  document of these.
\<close>

theorem create_pdf_book_length_mismatch:
  assumes "length image_data \<noteq> length ps + 1"
  shows "(length image_data < length ps + 1 \<longrightarrow> isl (create_pdf_book e t ps image_data)) \<and>
         ((\<forall>img\<in>set (take (length ps + 1) image_data). ImageReader e img = None) \<and>
          (\<forall>p\<in>set ps. Paragraph e p = None) \<longrightarrow>
          create_pdf_book e t ps image_data =
            (if length image_data < length ps + 1
             then Inl (PyError ''IndexError'' ''list index out of range'')
             else Inr (render_book t ps image_data)))"
proof (intro conjI impI)
  assume short: "length image_data < length ps + 1"
  show "isl (create_pdf_book e t ps image_data)"
  proof (cases "create_pdf_book e t ps image_data")
    case (Inl err)
    then show ?thesis by simp
  next
    case (Inr doc)
    from create_pdf_book_Inr [OF this] short show ?thesis by simp
  qed
next
  assume acc: "(\<forall>img\<in>set (take (length ps + 1) image_data). ImageReader e img = None) \<and>
               (\<forall>p\<in>set ps. Paragraph e p = None)"
  show "create_pdf_book e t ps image_data =
          (if length image_data < length ps + 1
           then Inl (PyError ''IndexError'' ''list index out of range'')
           else Inr (render_book t ps image_data))"
  proof (cases "length image_data < length ps + 1")
    case True
    then have "take (length ps + 1) image_data = image_data" by simp
    with acc have "\<forall>img\<in>set image_data. ImageReader e img = None" by simp
    then show ?thesis using True acc by (simp add: create_pdf_book_short)
  next
    case False
    with assms have len: "length ps + 1 < length image_data" by simp
    have "ImageReader e (image_data ! i) = None" if "i \<le> length ps" for i
    proof -
      have "take (length ps + 1) image_data ! i \<in> set (take (length ps + 1) image_data)"
        using that len by (intro nth_mem) simp
      then show ?thesis using acc that by simp
    qed
    then show ?thesis using False len acc by (simp add: create_pdf_book_ok)
  qed
qed

text \<open>One paragraph and the cover image alone: the read of the second image raises.\<close>

theorem create_pdf_book_length_mismatch_witness:
  "length [png_red] \<noteq> length [''Uno.''] + 1 \<and>
   ImageReader env_ok png_red = None \<and> Paragraph env_ok ''Uno.'' = None \<and>
   create_pdf_book env_ok ''T'' [''Uno.''] [png_red] =
     Inl (PyError ''IndexError'' ''list index out of range'')"
  using create_pdf_book_length_mismatch [of "[png_red]" "[''Uno.'']" env_ok "''T''"]
  by (simp add: env_ok_def image_table_def plain_paragraph_def)

text \<open>
  C5, as stated, fails: with one paragraph and three PNG files the lengths do not match,
  and the call returns a three-page document.
\<close>

theorem create_pdf_book_no_invariant_check:
  "length [png_red, png_green, png_blue] \<noteq> length [''Uno.''] + 1 \<and>
   create_pdf_book env_ok ''T'' [''Uno.''] [png_red, png_green, png_blue] =
     Inr [[DrawImage png_red, SetFont ''Helvetica-Bold'' 36, SetFillColorRGB, DrawCentredString ''T''],
          [SetFillColor, Rect, DrawParagraph ''Uno.''], [DrawImage png_green]]"
  by (simp add: create_pdf_book_def py_index_def env_ok_def image_table_def plain_paragraph_def
        Let_def Canvas_def draw_def showPage_def save_def)

text \<open>
  C9. \<^verbatim>\<open>create_pdf_book\<close> reads the images at positions \<open>0\<close> to \<open>N\<close> only: two image
  sequences of length at least \<open>N + 1\<close> that agree on their first \<open>N + 1\<close> elements give the
  same outcome, the same document or the same exception, and that outcome is the one of
  the first \<open>N + 1\<close> images alone, so that the further images cause no failure and change
  nothing.
\<close>

theorem create_pdf_book_reads_prefix:
  "length ps + 1 \<le> length a \<Longrightarrow> length ps + 1 \<le> length b \<Longrightarrow>
   take (length ps + 1) a = take (length ps + 1) b \<Longrightarrow>
   create_pdf_book e t ps a = create_pdf_book e t ps b \<and>
   create_pdf_book e t ps a = create_pdf_book e t ps (take (length ps + 1) a)"
  using create_pdf_book_take [of ps a b e t] create_pdf_book_take [of ps a "take (length ps + 1) a" e t]
  by simp

text \<open>
  One paragraph, two PNG files, and further byte strings that are no images: the document
  is that of the two PNG files.
\<close>

theorem create_pdf_book_reads_prefix_witness:
  "length [''Uno.''] + 1 \<le> length [png_red, png_green, ''x''] \<and>
   length [''Uno.''] + 1 \<le> length [png_red, png_green, ''y'', ''z''] \<and>
   take (length [''Uno.''] + 1) [png_red, png_green, ''x''] =
     take (length [''Uno.''] + 1) [png_red, png_green, ''y'', ''z''] \<and>
   create_pdf_book env_ok ''T'' [''Uno.''] [png_red, png_green, ''x''] =
     create_pdf_book env_ok ''T'' [''Uno.''] [png_red, png_green, ''y'', ''z''] \<and>
   create_pdf_book env_ok ''T'' [''Uno.''] [png_red, png_green, ''x''] =
     create_pdf_book env_ok ''T'' [''Uno.''] [png_red, png_green]"
  using create_pdf_book_reads_prefix [of "[''Uno.'']" "[png_red, png_green, ''x'']"
      "[png_red, png_green, ''y'', ''z'']" env_ok "''T''"]
  by auto

section \<open>The fan-out of image requests\<close>

lemma first_exception_None:
  "(first_exception order outs = None) = (\<forall>i\<in>set order. i < length outs \<longrightarrow> \<not> isl (outs ! i))"
  by (induction order) (auto split: sum.splits)

lemma first_exception_Some:
  "first_exception order outs = Some err \<Longrightarrow> \<exists>i<length outs. outs ! i = Inl err"
  by (induction order) (auto split: sum.splits if_splits)

lemma set_completion_order: "set (completion_order n sched) = {0..<n}"
  by (auto simp: completion_order_def)

lemma results_map_Inr: "results (map Inr vs) = Inr vs"
  by (induction vs) simp_all

lemma first_exception_map_Inr: "first_exception order (map Inr vs) = None"
  by (simp add: first_exception_None)

lemma gather_ok: "gather sched (map Inr vs) = Inr vs"
  by (simp add: gather_def first_exception_map_Inr results_map_Inr)

lemma gather_fail:
  assumes "k < length outs" "isl (outs ! k)"
  shows "\<exists>j<length outs. \<exists>err. outs ! j = Inl err \<and> gather sched outs = Inl err"
proof -
  have "k \<in> set (completion_order (length outs) sched)"
    using assms(1) by (simp add: set_completion_order)
  then have "first_exception (completion_order (length outs) sched) outs \<noteq> None"
    using assms by (auto simp: first_exception_None)
  then obtain err where e: "first_exception (completion_order (length outs) sched) outs = Some err"
    by auto
  from first_exception_Some [OF e] obtain j where "j < length outs" "outs ! j = Inl err"
    by auto
  then show ?thesis using e by (auto simp: gather_def)
qed

lemma length_scene_prompts: "length (scene_prompts ps) = length ps + 1"
  by (simp add: scene_prompts_def)

lemma length_image_tasks: "length (image_tasks e ps) = length ps + 1"
  by (simp add: image_tasks_def length_scene_prompts)

lemma nth_image_tasks:
  "k \<le> length ps \<Longrightarrow> image_tasks e ps ! k = generate_image_data e k (scene_prompts ps ! k)"
  by (simp add: image_tasks_def length_scene_prompts nth_enumerate_eq)

lemma generate_image_data_fail:
  "isl (snd (generate_image_data e k prompt)) \<Longrightarrow>
   snd (generate_image_data e k prompt) =
     Inl (HTTPException 500 (''Failed to generate image for prompt: '' @ prompt))"
  by (auto simp: generate_image_data_def split: sum.splits)

lemma image_calls:
  "map fst (image_tasks e ps) =
     map (\<lambda>scene. ImageCall ''dall-e-3'' (full_prompt scene) ''1024x768'') (scene_prompts ps)"
  by (rule nth_equalityI)
     (simp_all add: length_image_tasks length_scene_prompts nth_image_tasks generate_image_data_def)

text \<open>
  C1. For every paragraph sequence of length \<open>N\<close> whose \<open>N + 1\<close> image requests succeed, the
  list that \<^verbatim>\<open>generate_book\<close> awaits has exactly \<open>N + 1\<close> images: position \<open>0\<close> is the image
  returned for the cover prompt and position \<open>i + 1\<close> the image returned for paragraph \<open>i\<close>,
  whatever the order \<open>sched\<close> in which the requests complete.
\<close>

theorem image_data_list_index_aligned:
  assumes "snd (generate_image_data e 0 cover_prompt) = Inr cover"
    and "\<forall>i<length ps. snd (generate_image_data e (i + 1) (ps ! i)) = Inr (img i)"
  shows "image_data_list e ps sched = Inr (cover # map img [0..<length ps]) \<and>
         length (cover # map img [0..<length ps]) = length ps + 1"
proof -
  have "map snd (image_tasks e ps) = map Inr (cover # map img [0..<length ps])"
  proof (rule nth_equalityI)
    show "length (map snd (image_tasks e ps)) = length (map Inr (cover # map img [0..<length ps]))"
      by (simp add: length_image_tasks)
  next
    fix k assume "k < length (map snd (image_tasks e ps))"
    then have k: "k \<le> length ps" by (simp add: length_image_tasks)
    show "map snd (image_tasks e ps) ! k = map Inr (cover # map img [0..<length ps]) ! k"
    proof (cases k)
      case 0
      then show ?thesis using assms(1) by (simp add: length_image_tasks nth_image_tasks scene_prompts_def)
    next
      case (Suc i)
      then have "i < length ps" using k by simp
      then show ?thesis using assms(2) Suc k
        by (simp add: length_image_tasks nth_image_tasks scene_prompts_def)
    qed
  qed
  then have "image_data_list e ps sched = gather sched (map Inr (cover # map img [0..<length ps]))"
    by (simp only: image_data_list_def)
  then show ?thesis by (simp only: gather_ok) simp
qed

text \<open>Two paragraphs, the last request completing first.\<close>

theorem image_data_list_index_aligned_witness:
  "snd (generate_image_data env_ok 0 cover_prompt) = Inr ''c'' \<and>
   snd (generate_image_data env_ok 1 ''Uno.'') = Inr ''a'' \<and>
   snd (generate_image_data env_ok 2 ''Dos.'') = Inr ''b'' \<and>
   image_data_list env_ok [''Uno.'', ''Dos.''] [2, 0, 1] = Inr [''c'', ''a'', ''b'']"
  using image_data_list_index_aligned [of env_ok "''c''" "[''Uno.'', ''Dos.'']" "\<lambda>i. if i = 0 then ''a'' else ''b''" "[2, 0, 1]"]
  by (simp add: generate_image_data_def image_response_def env_ok_def py_index_def b64_table_def
        All_less_Suc upt_rec)

lemma image_data_list_fail:
  assumes "k \<le> length ps" "isl (snd (generate_image_data e k (scene_prompts ps ! k)))"
  shows "\<exists>j\<le>length ps. isl (snd (generate_image_data e j (scene_prompts ps ! j))) \<and>
           image_data_list e ps sched =
             Inl (HTTPException 500 (''Failed to generate image for prompt: '' @ scene_prompts ps ! j))"
proof -
  let ?outs = "map snd (image_tasks e ps)"
  have "k < length ?outs" "isl (?outs ! k)"
    using assms by (simp_all add: length_image_tasks nth_image_tasks)
  from gather_fail [OF this, of sched] obtain j err
    where j: "j < length ?outs" "?outs ! j = Inl err" "gather sched ?outs = Inl err"
    by blast
  have jl: "j \<le> length ps" using j(1) by (simp add: length_image_tasks)
  then have out: "snd (generate_image_data e j (scene_prompts ps ! j)) = Inl err"
    using j(2) by (simp add: length_image_tasks nth_image_tasks)
  then have "isl (snd (generate_image_data e j (scene_prompts ps ! j)))" by simp
  from generate_image_data_fail [OF this] out
  have "err = HTTPException 500 (''Failed to generate image for prompt: '' @ scene_prompts ps ! j)"
    by simp
  then show ?thesis using jl out j(3) by (auto simp: image_data_list_def)
qed

text \<open>
  C3. For every book request with \<open>N\<close> paragraphs and every position \<open>k\<close> among the \<open>N + 1\<close>
  image requests: when request \<open>k\<close> fails, no list of images results, and \<^verbatim>\<open>generate_book\<close>
  raises instead of returning a response, whatever the completion order.
\<close>

theorem generate_book_all_or_nothing:
  assumes "k \<le> length (paragraphs request)"
    and "isl (snd (generate_image_data e k (scene_prompts (paragraphs request) ! k)))"
  shows "(\<exists>err. image_data_list e (paragraphs request) sched = Inl err) \<and>
         (\<exists>err. snd (generate_book e request sched) = Inl err)"
  using image_data_list_fail [OF assms, of sched] by (auto simp: generate_book_def)

text \<open>Two paragraphs, the request of the first paragraph failing.\<close>

theorem generate_book_all_or_nothing_witness:
  "(1::nat) \<le> length (paragraphs \<lparr>title = ''T'', paragraphs = [''Uno.'', ''Dos.'']\<rparr>) \<and>
   isl (snd (generate_image_data (env_failing 1) 1
     (scene_prompts (paragraphs \<lparr>title = ''T'', paragraphs = [''Uno.'', ''Dos.'']\<rparr>) ! 1))) \<and>
   (\<exists>err. snd (generate_book (env_failing 1) \<lparr>title = ''T'', paragraphs = [''Uno.'', ''Dos.'']\<rparr> [2, 0, 1]) = Inl err)"
  using generate_book_all_or_nothing [of 1 "\<lparr>title = ''T'', paragraphs = [''Uno.'', ''Dos.'']\<rparr>" "env_failing 1" "[2, 0, 1]"]
  by (simp add: generate_image_data_def image_response_def env_failing_def env_ok_def scene_prompts_def)

text \<open>
  C7, as amended. A failing image request raises an HTTP 500 error whose detail is
  \<^verbatim>\<open>Failed to generate image for prompt: \<close> followed by the text of its scene prompt, and
  when some request of a book fails, the error \<^verbatim>\<open>generate_book\<close> raises is that error of one
  of the failing requests. The error carries the prompt text, not the position.
\<close>

theorem generate_book_failure_names_prompt:
  assumes "\<not> py_not (api_key e)" "k \<le> length (paragraphs request)"
    and "isl (snd (generate_image_data e k (scene_prompts (paragraphs request) ! k)))"
  shows "\<exists>j\<le>length (paragraphs request).
           isl (snd (generate_image_data e j (scene_prompts (paragraphs request) ! j))) \<and>
           snd (generate_book e request sched) =
             Inl (HTTPException 500
                   (''Failed to generate image for prompt: '' @ scene_prompts (paragraphs request) ! j))"
  using image_data_list_fail [OF assms(2,3), of sched] assms(1) by (auto simp: generate_book_def)

text \<open>Two paragraphs, the request of the second paragraph failing.\<close>

theorem generate_book_failure_names_prompt_witness:
  "\<not> py_not (api_key (env_failing 2)) \<and>
   2 \<le> length (paragraphs \<lparr>title = ''T'', paragraphs = [''Uno.'', ''Dos.'']\<rparr>) \<and>
   isl (snd (generate_image_data (env_failing 2) 2
     (scene_prompts (paragraphs \<lparr>title = ''T'', paragraphs = [''Uno.'', ''Dos.'']\<rparr>) ! 2))) \<and>
   (\<exists>j\<le>length (paragraphs \<lparr>title = ''T'', paragraphs = [''Uno.'', ''Dos.'']\<rparr>).
      isl (snd (generate_image_data (env_failing 2) j
        (scene_prompts (paragraphs \<lparr>title = ''T'', paragraphs = [''Uno.'', ''Dos.'']\<rparr>) ! j))) \<and>
      snd (generate_book (env_failing 2) \<lparr>title = ''T'', paragraphs = [''Uno.'', ''Dos.'']\<rparr> [1, 2, 0]) =
        Inl (HTTPException 500
              (''Failed to generate image for prompt: '' @
               scene_prompts (paragraphs \<lparr>title = ''T'', paragraphs = [''Uno.'', ''Dos.'']\<rparr>) ! j)))"
proof -
  let ?req = "\<lparr>title = ''T'', paragraphs = [''Uno.'', ''Dos.'']\<rparr>"
  have key: "\<not> py_not (api_key (env_failing 2))"
    by (simp add: env_failing_def env_ok_def py_not_def)
  have len: "2 \<le> length (paragraphs ?req)"
    by simp
  have fails: "isl (snd (generate_image_data (env_failing 2) 2 (scene_prompts (paragraphs ?req) ! 2)))"
    by (simp add: generate_image_data_def image_response_def env_failing_def)
  from generate_book_failure_names_prompt [OF key len fails, of "[1, 2, 0]"] key len fails
  show ?thesis by blast
qed

text \<open>
  C7, as stated, fails: for a book of two equal paragraphs, the run in which only request
  \<open>1\<close> fails and the run in which only request \<open>2\<close> fails raise the same error, so the error
  does not tell which position failed.
\<close>

theorem failure_does_not_identify_index:
  "isl (snd (generate_image_data (env_failing 1) 1 ''Fin.'')) \<and>
   \<not> isl (snd (generate_image_data (env_failing 1) 2 ''Fin.'')) \<and>
   \<not> isl (snd (generate_image_data (env_failing 2) 1 ''Fin.'')) \<and>
   isl (snd (generate_image_data (env_failing 2) 2 ''Fin.'')) \<and>
   snd (generate_book (env_failing 1) \<lparr>title = ''T'', paragraphs = [''Fin.'', ''Fin.'']\<rparr> [0, 1, 2]) =
     Inl (HTTPException 500 ''Failed to generate image for prompt: Fin.'') \<and>
   snd (generate_book (env_failing 2) \<lparr>title = ''T'', paragraphs = [''Fin.'', ''Fin.'']\<rparr> [0, 1, 2]) =
     Inl (HTTPException 500 ''Failed to generate image for prompt: Fin.'')"
  by (simp add: generate_book_def image_data_list_def image_tasks_def scene_prompts_def
        generate_image_data_def image_response_def env_failing_def env_ok_def py_not_def
        py_index_def b64_table_def gather_def completion_order_def enumerate_eq_zip upt_rec)

section \<open>The endpoints\<close>

text \<open>
  C6. For every book request, the image requests issued are exactly one per scene (the
  cover prompt, then each paragraph), and the prompt of each is the same art style prompt
  followed by the same scene marker and the scene.
\<close>

theorem generate_book_calls_share_preamble:
  "\<not> py_not (api_key e) \<Longrightarrow>
   fst (generate_book e request sched) =
     map (\<lambda>scene. ImageCall ''dall-e-3'' (ART_STYLE_PROMPT @ ''\<newline>\<newline>**Scene:** '' @ scene) ''1024x768'')
       (cover_prompt # paragraphs request)"
  by (simp add: generate_book_def image_calls full_prompt_def scene_prompts_def)

text \<open>The three requests of a book of two paragraphs.\<close>

theorem generate_book_calls_share_preamble_witness:
  "\<not> py_not (api_key env_ok) \<and>
   fst (generate_book env_ok \<lparr>title = ''T'', paragraphs = [''Uno.'', ''Dos.'']\<rparr> [2, 0, 1]) =
     [ImageCall ''dall-e-3'' (ART_STYLE_PROMPT @ ''\<newline>\<newline>**Scene:** '' @ cover_prompt) ''1024x768'',
      ImageCall ''dall-e-3'' (ART_STYLE_PROMPT @ ''\<newline>\<newline>**Scene:** '' @ ''Uno.'') ''1024x768'',
      ImageCall ''dall-e-3'' (ART_STYLE_PROMPT @ ''\<newline>\<newline>**Scene:** '' @ ''Dos.'') ''1024x768'']"
  using generate_book_calls_share_preamble [of env_ok "\<lparr>title = ''T'', paragraphs = [''Uno.'', ''Dos.'']\<rparr>" "[2, 0, 1]"]
  by (simp add: env_ok_def py_not_def)

lemma startup_with_key: "startup (Some k) = Inr (Some k)"
  by (simp add: startup_def AsyncOpenAI_def)

lemma endpoint_guards:
  "py_not (api_key e) \<Longrightarrow>
   generate_story e story_request =
     ([], Inl (HTTPException 500 ''OPENAI_API_KEY is not configured on the server.'')) \<and>
   generate_book e book_request sched =
     ([], Inl (HTTPException 500 ''OPENAI_API_KEY is not configured on the server.''))"
  by (simp add: generate_story_def generate_book_def)

text \<open>
  C10. The claim is that with the environment variable unset each endpoint raises the HTTP
  500 error before any external request. The guards of the two endpoints do raise it,
  with no request issued, whenever the key is missing or empty, and a variable set to the
  empty string starts the service in such a state. With the variable unset, however, the
  import of the module ends with the exception of the client constructor, so that no
  request is served and no guard is reached.
\<close>

theorem startup_fails_without_api_key:
  "startup None =
     Inl (PyError ''OpenAIError''
           (''The api_key client option must be set either by passing api_key to the '' @
            ''client or by setting the OPENAI_API_KEY environment variable''))"
  by (simp add: startup_def AsyncOpenAI_def)

text \<open>
  C4, as amended. With the API key set, \<^verbatim>\<open>generate_story\<close> returns the content of the first
  choice of the external response as it is, without decoding it or counting paragraphs, and
  raises an HTTP 500 error only when the external call raises or the response has no choice.
\<close>

theorem generate_story_returns_content_unchecked:
  "\<not> py_not (api_key e) \<Longrightarrow>
   snd (generate_story e request) =
     (case chat_completions_create e system_prompt (''The theme of the story is: '' @ theme request) of
        Inl err \<Rightarrow> Inl (HTTPException 500 (''Failed to generate story. Error: '' @ msg err))
      | Inr [] \<Rightarrow> Inl (HTTPException 500 ''Failed to generate story. Error: list index out of range'')
      | Inr (content # others) \<Rightarrow> Inr content)"
  by (simp add: generate_story_def py_index_def str_of_def Let_def split: sum.splits list.splits)

text \<open>The content of the external response is what the endpoint returns.\<close>

theorem generate_story_returns_content_unchecked_witness:
  "\<not> py_not (api_key env_ok) \<and>
   snd (generate_story env_ok \<lparr>theme = ''un barrilete que vuela muy alto''\<rparr>) = Inr (Some story_json)"
  using generate_story_returns_content_unchecked [of env_ok "\<lparr>theme = ''un barrilete que vuela muy alto''\<rparr>"]
  by (simp add: env_ok_def py_not_def)

text \<open>
  C4, as stated, fails: an external response whose JSON object has three paragraphs is
  returned to the caller, not turned into a failure.
\<close>

theorem generate_story_returns_three_paragraphs:
  \<open>snd (generate_story env_ok \<lparr>theme = ''un barrilete que vuela muy alto''\<rparr>) =
     Inr (Some ''{"title": "El barrilete", "paragraphs": ["Uno.", "Dos.", "Tres."]}'')\<close>
  by (simp add: generate_story_def env_ok_def py_not_def py_index_def story_json_def)

text \<open>
  C8, as amended. \<^verbatim>\<open>generate_story\<close> does not inspect the theme: with the API key set it
  issues exactly one external text-generation request, whose user prompt is the fixed
  prefix followed by the theme, for every theme, the empty one included.
\<close>

theorem generate_story_issues_call_for_any_theme:
  "\<not> py_not (api_key e) \<Longrightarrow>
   fst (generate_story e request) =
     [ChatCall ''gpt-4o'' system_prompt (''The theme of the story is: '' @ theme request)]"
  by (simp add: generate_story_def Let_def)

text \<open>The request issued for the empty theme.\<close>

theorem generate_story_issues_call_for_any_theme_witness:
  "\<not> py_not (api_key env_ok) \<and>
   fst (generate_story env_ok \<lparr>theme = []\<rparr>) =
     [ChatCall ''gpt-4o'' system_prompt ''The theme of the story is: '']"
  using generate_story_issues_call_for_any_theme [of env_ok "\<lparr>theme = []\<rparr>"]
  by (simp add: env_ok_def py_not_def)

text \<open>
  C8, as stated, fails: for the empty theme the external request is issued and its content
  is returned.
\<close>

theorem generate_story_accepts_empty_theme:
  "generate_story env_ok \<lparr>theme = []\<rparr> =
     ([ChatCall ''gpt-4o'' system_prompt ''The theme of the story is: ''], Inr (Some story_json))"
  by (simp add: generate_story_def env_ok_def py_not_def py_index_def)

end
